theory Spec2Isabelle
  imports Main
begin

section \<open>JavaScript values shared by the three source files\<close>

text \<open>
  A JavaScript string is modelled as a \<^typ>\<open>string\<close>; a reference that may be
  \<^verbatim>\<open>null\<close> or \<^verbatim>\<open>undefined\<close> (the sources test both at once with
  \<^verbatim>\<open>== null\<close>) is an \<^typ>\<open>'a option\<close>, \<^term>\<open>None\<close> being null.

  \<^verbatim>\<open>String.prototype.toLowerCase\<close> is a builtin of the language. It is modelled on
  the ASCII letters, character by character; every other character is kept. The
  properties below hold for any function in its place that maps the empty string to
  itself; the letters matter in the worked examples only.
\<close>

definition lower_char :: "char \<Rightarrow> char" where
  "lower_char c =
     (case map_of (zip ''ABCDEFGHIJKLMNOPQRSTUVWXYZ'' ''abcdefghijklmnopqrstuvwxyz'') c of
        None \<Rightarrow> c
      | Some l \<Rightarrow> l)"

definition toLowerCase :: "string \<Rightarrow> string" where
  "toLowerCase s = map lower_char s"

text \<open>
  Calling a method on \<^verbatim>\<open>null\<close> throws a \<^verbatim>\<open>TypeError\<close>: the only exception
  the modelled code can raise.
\<close>

datatype error = TypeError

text \<open>
  Modelled from the spec: the fatal-alert channel \<^verbatim>\<open>Alert.fatal(msg, title)\<close>. Class
  \<^verbatim>\<open>Alert\<close> is not among the sources; the channel takes a message and a component
  tag, and control returns to the caller (every call in the sources is followed by a
  \<^verbatim>\<open>return\<close>). The channel is the list of the alerts raised so far, oldest first.
\<close>

type_synonym alert = "string \<times> string"

definition Alert_fatal :: "string \<Rightarrow> string \<Rightarrow> alert list \<Rightarrow> alert list" where
  "Alert_fatal msg title channel = channel @ [(msg, title)]"


section \<open>Key.ts: the relational key\<close>

text \<open>
  The three private members \<^verbatim>\<open>name$\<close>, \<^verbatim>\<open>block$\<close> and \<^verbatim>\<open>fields$\<close>
  (written with a prime here), all initialised to \<^verbatim>\<open>null\<close>. The getters
  \<^verbatim>\<open>name\<close>, \<^verbatim>\<open>block\<close> and \<^verbatim>\<open>fields\<close> return them as they are, so the
  record's selectors are the getters.
\<close>

record Key =
  name' :: "string option"
  block' :: "string option"
  fields' :: "string option list option"

definition Key_members_init :: Key where
  "Key_members_init = \<lparr>name' = None, block' = None, fields' = None\<rparr>"

text \<open>
  The constructor's arguments. \<^verbatim>\<open>block : string | Block\<close>: class \<^verbatim>\<open>Block\<close> is not
  among the sources, the constructor reads its \<^verbatim>\<open>name\<close> only.
  \<^verbatim>\<open>fields : string | string[]\<close>: the project compiles without strict null checks
  (members of type \<^verbatim>\<open>string\<close> are initialised to \<^verbatim>\<open>null\<close>), so an array may
  hold null entries.
\<close>

datatype Block = Block (block_name: "string option")

datatype block_arg = Block_null | Block_string string | Block_object Block

datatype fields_arg = Fields_null | Fields_string string | Fields_array "string option list"

text \<open>
  The loop \<^verbatim>\<open>for (let i = 0; i < fields.length; i++) fields[i] = fields[i].toLowerCase()\<close>,
  from index \<open>i\<close> on. It updates the array in place; a null entry throws.
\<close>

function lower_fields :: "nat \<Rightarrow> string option list \<Rightarrow> error + string option list" where
  "lower_fields i fs =
     (if i < length fs then
        (case fs ! i of
           None \<Rightarrow> Inl TypeError
         | Some f \<Rightarrow> lower_fields (i + 1) (fs[i := Some (toLowerCase f)]))
      else Inr fs)"
  by pat_completeness auto
termination
  by (relation "measure (\<lambda>(i, fs). length fs - i)") auto

declare lower_fields.simps [simp del]

text \<open>
  \<^verbatim>\<open>constructor(block, fields)\<close>. The result is the alert channel after the call and
  either the exception thrown or the object constructed. An early \<^verbatim>\<open>return\<close> leaves
  the members as initialised. When an array is passed, \<^verbatim>\<open>fields$\<close> is that very array,
  lower-cased in place; a single string is wrapped into a new one-element array first.
\<close>

definition Key_constructor :: "block_arg \<Rightarrow> fields_arg \<Rightarrow> alert list \<Rightarrow> (error + Key) \<times> alert list" where
  "Key_constructor block_a fields_a channel =
     (if block_a = Block_null then
        (Inr Key_members_init,
         Alert_fatal (''Invalid key definition, block: 'null'' @ [CHR 0x27]) ''Key'' channel)
      else if fields_a = Fields_null then
        (Inr Key_members_init,
         Alert_fatal (''Invalid key definition, fields: 'null'' @ [CHR 0x27]) ''Key'' channel)
      else
        let fs = (case fields_a of Fields_string f \<Rightarrow> [Some f] | Fields_array a \<Rightarrow> a | Fields_null \<Rightarrow> [])
        in if length fs = 0 then
             (Inr Key_members_init, Alert_fatal ''Invalid key definition, no fields'' ''Key'' channel)
           else
             (case (case block_a of Block_string s \<Rightarrow> Some s | Block_object b \<Rightarrow> block_name b | Block_null \<Rightarrow> None) of
                None \<Rightarrow> (Inl TypeError, channel)
              | Some b \<Rightarrow>
                  (case lower_fields 0 fs of
                     Inl e \<Rightarrow> (Inl e, channel)
                   | Inr fs' \<Rightarrow>
                       (Inr \<lparr>name' = None, block' = Some (toLowerCase b), fields' = Some fs'\<rparr>, channel))))"


section \<open>FieldProperties.ts: the field-property builder\<close>

subsection \<open>The base class\<close>

text \<open>
  The contents of the style map, the class list and the attribute map are computed by
  class \<^verbatim>\<open>BasicProperties\<close>, which is not among the sources. A collection is kept here
  as what it was last assigned and the entries put into it and removed from it since,
  newest outermost.
\<close>

datatype ('a, 'k, 'v) collection =
    Assigned 'a
  | Put 'k 'v "('a, 'k, 'v) collection"
  | Removed 'k "('a, 'k, 'v) collection"

datatype classes_arg = Classes_string string | Classes_array "string list"

text \<open>
  Modelled from the spec: the members of class \<^verbatim>\<open>BasicProperties\<close>, which is not among
  the sources. The spec (4.2) calls it a shared base properties record of tag, enabled,
  readonly, required, hidden, style map, class list, attribute map, value, valid-value
  set and data mapper, and (2) adds the data type and the derived status, fixed when the
  field is created. A member assigned in \<^verbatim>\<open>FieldProperties.ts\<close>
  (\<^verbatim>\<open>this.tag = tag\<close>) holds the value assigned. The enumeration \<^verbatim>\<open>DataType\<close>, the
  valid values (\<^verbatim>\<open>string[] | Set<any> | Map<any,any>\<close>) and the mapper
  (\<^verbatim>\<open>Class<DataMapper> | DataMapper | string\<close>) are the type parameters
  \<open>'t\<close>, \<open>'v\<close> and \<open>'m\<close>.
\<close>

record ('t, 'v, 'm) BasicProperties =
  tag :: "string option"
  type :: 't
  enabled :: bool
  readonly :: bool
  derived :: bool
  required :: bool
  hidden :: bool
  styles :: "(string, string, string) collection"
  classes :: "(classes_arg, string, unit) collection"
  attributes :: "((string \<times> string) list, string, string option) collection"
  "value" :: "string option"
  validValues :: 'v
  mapper :: 'm

text \<open>
  \<^verbatim>\<open>FieldProperties\<close> reaches nine methods of \<^verbatim>\<open>BasicProperties\<close> through
  \<^verbatim>\<open>super\<close>. By the spec (4.2, 8) each setter changes one attribute, the one it is
  named after, and leaves all others unchanged.
\<close>

text \<open>
  Modelled from the spec: \<^verbatim>\<open>BasicProperties.setStyle\<close>, which is not among the sources.
  It changes the style map, where it puts one entry.
\<close>

definition BasicProperties_setStyle ::
    "string \<Rightarrow> string \<Rightarrow> ('t, 'v, 'm) BasicProperties \<Rightarrow> ('t, 'v, 'm) BasicProperties" where
  "BasicProperties_setStyle style v p = p\<lparr>styles := Put style v (styles p)\<rparr>"

text \<open>
  Modelled from the spec: \<^verbatim>\<open>BasicProperties.removeStyle\<close>, which is not among the sources.
  It changes the style map, where it removes one entry.
\<close>

definition BasicProperties_removeStyle ::
    "string \<Rightarrow> ('t, 'v, 'm) BasicProperties \<Rightarrow> ('t, 'v, 'm) BasicProperties" where
  "BasicProperties_removeStyle style p = p\<lparr>styles := Removed style (styles p)\<rparr>"

text \<open>
  Modelled from the spec: \<^verbatim>\<open>BasicProperties.setClass\<close>, which is not among the sources.
  It changes the class list, where it puts one class.
\<close>

definition BasicProperties_setClass ::
    "string \<Rightarrow> ('t, 'v, 'm) BasicProperties \<Rightarrow> ('t, 'v, 'm) BasicProperties" where
  "BasicProperties_setClass clazz p = p\<lparr>classes := Put clazz () (classes p)\<rparr>"

text \<open>
  Modelled from the spec: \<^verbatim>\<open>BasicProperties.setClasses\<close>, which is not among the sources.
  It changes the class list, which it sets.
\<close>

definition BasicProperties_setClasses ::
    "classes_arg \<Rightarrow> ('t, 'v, 'm) BasicProperties \<Rightarrow> ('t, 'v, 'm) BasicProperties" where
  "BasicProperties_setClasses cs p = p\<lparr>classes := Assigned cs\<rparr>"

text \<open>
  Modelled from the spec: \<^verbatim>\<open>BasicProperties.removeClass\<close>, which is not among the sources.
  It changes the class list, where it removes one class.
\<close>

definition BasicProperties_removeClass ::
    "string \<Rightarrow> ('t, 'v, 'm) BasicProperties \<Rightarrow> ('t, 'v, 'm) BasicProperties" where
  "BasicProperties_removeClass clazz p = p\<lparr>classes := Removed clazz (classes p)\<rparr>"

text \<open>
  Modelled from the spec: \<^verbatim>\<open>BasicProperties.setAttribute\<close>, which is not among the sources.
  It changes the attribute map, where it puts one entry (the value is optional).
\<close>

definition BasicProperties_setAttribute ::
    "string \<Rightarrow> string option \<Rightarrow> ('t, 'v, 'm) BasicProperties \<Rightarrow> ('t, 'v, 'm) BasicProperties" where
  "BasicProperties_setAttribute attr v p = p\<lparr>attributes := Put attr v (attributes p)\<rparr>"

text \<open>
  Modelled from the spec: \<^verbatim>\<open>BasicProperties.setAttributes\<close>, which is not among the sources.
  It changes the attribute map, which it sets.
\<close>

definition BasicProperties_setAttributes ::
    "(string \<times> string) list \<Rightarrow> ('t, 'v, 'm) BasicProperties \<Rightarrow> ('t, 'v, 'm) BasicProperties" where
  "BasicProperties_setAttributes attrs p = p\<lparr>attributes := Assigned attrs\<rparr>"

text \<open>
  Modelled from the spec: \<^verbatim>\<open>BasicProperties.removeAttribute\<close>, which is not among the sources.
  It changes the attribute map, where it removes one entry.
\<close>

definition BasicProperties_removeAttribute ::
    "string \<Rightarrow> ('t, 'v, 'm) BasicProperties \<Rightarrow> ('t, 'v, 'm) BasicProperties" where
  "BasicProperties_removeAttribute attr p = p\<lparr>attributes := Removed attr (attributes p)\<rparr>"

text \<open>
  Modelled from the spec: \<^verbatim>\<open>BasicProperties.setMapper\<close>, which is not among the sources.
  It changes the data mapper, which it sets.
\<close>

definition BasicProperties_setMapper ::
    "'m \<Rightarrow> ('t, 'v, 'm) BasicProperties \<Rightarrow> ('t, 'v, 'm) BasicProperties" where
  "BasicProperties_setMapper m p = p\<lparr>mapper := m\<rparr>"

subsection \<open>Objects and the store\<close>

text \<open>
  Instances are objects with an identity: a reference is an index into the store, and
  \<^verbatim>\<open>new\<close> appends a cell, so its reference is one no earlier object has. The state
  is the store and the alert channel.
\<close>

type_synonym ref = nat

record ('t, 'v, 'm) world =
  alerts :: "alert list"
  heap :: "('t, 'v, 'm) BasicProperties list"

definition modify ::
    "ref \<Rightarrow> (('t, 'v, 'm) BasicProperties \<Rightarrow> ('t, 'v, 'm) BasicProperties) \<Rightarrow>
     ('t, 'v, 'm) world \<Rightarrow> ('t, 'v, 'm) world" where
  "modify this f w = w\<lparr>heap := (heap w)[this := f (heap w ! this)]\<rparr>"

text \<open>
  Modelled from the spec: \<^verbatim>\<open>FieldFeatureFactory.copyBasic(exist, props)\<close>, which is not
  among the sources. By the spec the copy has the attribute snapshot of the source and
  shares no mutable state with it: each attribute of the base record is copied by value
  into \<open>props\<close>.
\<close>

definition copyBasic :: "ref \<Rightarrow> ref \<Rightarrow> ('t, 'v, 'm) world \<Rightarrow> ('t, 'v, 'm) world" where
  "copyBasic exist props w =
     (let e = heap w ! exist in
      modify props (\<lambda>p. p\<lparr>tag := tag e, enabled := enabled e, readonly := readonly e,
        required := required e, hidden := hidden e, styles := styles e, classes := classes e,
        attributes := attributes e, value := value e, validValues := validValues e,
        mapper := mapper e\<rparr>) w)"

subsection \<open>The class\<close>

text \<open>
  \<^verbatim>\<open>constructor(properties)\<close>: \<^verbatim>\<open>super()\<close> initialises the members of the new
  object, then a non-null argument is copied into it. The initial members are those of
  \<^verbatim>\<open>BasicProperties\<close> and are the parameter \<open>init\<close>.
\<close>

definition FieldProperties_constructor ::
    "('t, 'v, 'm) BasicProperties \<Rightarrow> ref option \<Rightarrow> ('t, 'v, 'm) world \<Rightarrow> ref \<times> ('t, 'v, 'm) world" where
  "FieldProperties_constructor init properties w =
     (let this = length (heap w);
          w' = w\<lparr>heap := heap w @ [init]\<rparr>
      in (this, case properties of None \<Rightarrow> w' | Some exist \<Rightarrow> copyBasic exist this w'))"

definition clone :: "('t, 'v, 'm) BasicProperties \<Rightarrow> ref \<Rightarrow> ('t, 'v, 'm) world \<Rightarrow> ref \<times> ('t, 'v, 'm) world" where
  "clone init this w = FieldProperties_constructor init (Some this) w"

definition setTag :: "string option \<Rightarrow> ref \<Rightarrow> ('t, 'v, 'm) world \<Rightarrow> ref \<times> ('t, 'v, 'm) world" where
  "setTag t this w = (this, modify this (\<lambda>p. p\<lparr>tag := t\<rparr>) w)"

definition setType :: "'t \<Rightarrow> ref \<Rightarrow> ('t, 'v, 'm) world \<Rightarrow> ref \<times> ('t, 'v, 'm) world" where
  "setType t this w =
     (this, w\<lparr>alerts := Alert_fatal ''Data type cannot be changed'' ''Properties'' (alerts w)\<rparr>)"

definition setEnabled :: "bool \<Rightarrow> ref \<Rightarrow> ('t, 'v, 'm) world \<Rightarrow> ref \<times> ('t, 'v, 'm) world" where
  "setEnabled flag this w = (this, modify this (\<lambda>p. p\<lparr>enabled := flag\<rparr>) w)"

definition setReadOnly :: "bool \<Rightarrow> ref \<Rightarrow> ('t, 'v, 'm) world \<Rightarrow> ref \<times> ('t, 'v, 'm) world" where
  "setReadOnly flag this w = (this, modify this (\<lambda>p. p\<lparr>readonly := flag\<rparr>) w)"

definition setDerived :: "bool \<Rightarrow> ref \<Rightarrow> ('t, 'v, 'm) world \<Rightarrow> ref \<times> ('t, 'v, 'm) world" where
  "setDerived flag this w =
     (this, w\<lparr>alerts := Alert_fatal ''Derived cannot be changed'' ''Properties'' (alerts w)\<rparr>)"

definition setRequired :: "bool \<Rightarrow> ref \<Rightarrow> ('t, 'v, 'm) world \<Rightarrow> ref \<times> ('t, 'v, 'm) world" where
  "setRequired flag this w = (this, modify this (\<lambda>p. p\<lparr>required := flag\<rparr>) w)"

definition setHidden :: "bool \<Rightarrow> ref \<Rightarrow> ('t, 'v, 'm) world \<Rightarrow> ref \<times> ('t, 'v, 'm) world" where
  "setHidden flag this w = (this, modify this (\<lambda>p. p\<lparr>hidden := flag\<rparr>) w)"

definition setStyle :: "string \<Rightarrow> string \<Rightarrow> ref \<Rightarrow> ('t, 'v, 'm) world \<Rightarrow> ref \<times> ('t, 'v, 'm) world" where
  "setStyle style v this w = (this, modify this (BasicProperties_setStyle style v) w)"

definition setStyles :: "string \<Rightarrow> ref \<Rightarrow> ('t, 'v, 'm) world \<Rightarrow> ref \<times> ('t, 'v, 'm) world" where
  "setStyles s this w = (this, modify this (\<lambda>p. p\<lparr>styles := Assigned s\<rparr>) w)"

definition removeStyle :: "string \<Rightarrow> ref \<Rightarrow> ('t, 'v, 'm) world \<Rightarrow> ref \<times> ('t, 'v, 'm) world" where
  "removeStyle style this w = (this, modify this (BasicProperties_removeStyle style) w)"

definition setClass :: "string \<Rightarrow> ref \<Rightarrow> ('t, 'v, 'm) world \<Rightarrow> ref \<times> ('t, 'v, 'm) world" where
  "setClass clazz this w = (this, modify this (BasicProperties_setClass clazz) w)"

definition setClasses :: "classes_arg \<Rightarrow> ref \<Rightarrow> ('t, 'v, 'm) world \<Rightarrow> ref \<times> ('t, 'v, 'm) world" where
  "setClasses cs this w = (this, modify this (BasicProperties_setClasses cs) w)"

definition removeClass :: "string \<Rightarrow> ref \<Rightarrow> ('t, 'v, 'm) world \<Rightarrow> ref \<times> ('t, 'v, 'm) world" where
  "removeClass clazz this w = (this, modify this (BasicProperties_removeClass clazz) w)"

definition setAttribute ::
    "string \<Rightarrow> string option \<Rightarrow> ref \<Rightarrow> ('t, 'v, 'm) world \<Rightarrow> ref \<times> ('t, 'v, 'm) world" where
  "setAttribute attr v this w = (this, modify this (BasicProperties_setAttribute attr v) w)"

definition setAttributes ::
    "(string \<times> string) list \<Rightarrow> ref \<Rightarrow> ('t, 'v, 'm) world \<Rightarrow> ref \<times> ('t, 'v, 'm) world" where
  "setAttributes attrs this w = (this, modify this (BasicProperties_setAttributes attrs) w)"

definition removeAttribute :: "string \<Rightarrow> ref \<Rightarrow> ('t, 'v, 'm) world \<Rightarrow> ref \<times> ('t, 'v, 'm) world" where
  "removeAttribute attr this w = (this, modify this (BasicProperties_removeAttribute attr) w)"

definition setValue :: "string option \<Rightarrow> ref \<Rightarrow> ('t, 'v, 'm) world \<Rightarrow> ref \<times> ('t, 'v, 'm) world" where
  "setValue v this w = (this, modify this (\<lambda>p. p\<lparr>value := v\<rparr>) w)"

definition setValidValues :: "'v \<Rightarrow> ref \<Rightarrow> ('t, 'v, 'm) world \<Rightarrow> ref \<times> ('t, 'v, 'm) world" where
  "setValidValues vs this w = (this, modify this (\<lambda>p. p\<lparr>validValues := vs\<rparr>) w)"

definition setMapper :: "'m \<Rightarrow> ref \<Rightarrow> ('t, 'v, 'm) world \<Rightarrow> ref \<times> ('t, 'v, 'm) world" where
  "setMapper m this w = (this, modify this (BasicProperties_setMapper m) w)"

text \<open>
  A call of one of the nineteen fluent setters, and a chain of such calls on one instance
  (\<^verbatim>\<open>p.setTag("div").setHidden(true)\<close>): each call is made on the reference the call
  before it returned.
\<close>

datatype ('t, 'v, 'm) setter =
    SetTag "string option"
  | SetType 't
  | SetEnabled bool
  | SetReadOnly bool
  | SetDerived bool
  | SetRequired bool
  | SetHidden bool
  | SetStyle string string
  | SetStyles string
  | RemoveStyle string
  | SetClass string
  | SetClasses classes_arg
  | RemoveClass string
  | SetAttribute string "string option"
  | SetAttributes "(string \<times> string) list"
  | RemoveAttribute string
  | SetValue "string option"
  | SetValidValues 'v
  | SetMapper 'm

fun call :: "('t, 'v, 'm) setter \<Rightarrow> ref \<Rightarrow> ('t, 'v, 'm) world \<Rightarrow> ref \<times> ('t, 'v, 'm) world" where
  "call (SetTag t) = setTag t"
| "call (SetType t) = setType t"
| "call (SetEnabled flag) = setEnabled flag"
| "call (SetReadOnly flag) = setReadOnly flag"
| "call (SetDerived flag) = setDerived flag"
| "call (SetRequired flag) = setRequired flag"
| "call (SetHidden flag) = setHidden flag"
| "call (SetStyle style v) = setStyle style v"
| "call (SetStyles s) = setStyles s"
| "call (RemoveStyle style) = removeStyle style"
| "call (SetClass clazz) = setClass clazz"
| "call (SetClasses cs) = setClasses cs"
| "call (RemoveClass clazz) = removeClass clazz"
| "call (SetAttribute attr v) = setAttribute attr v"
| "call (SetAttributes attrs) = setAttributes attrs"
| "call (RemoveAttribute attr) = removeAttribute attr"
| "call (SetValue v) = setValue v"
| "call (SetValidValues vs) = setValidValues vs"
| "call (SetMapper m) = setMapper m"

fun chain :: "('t, 'v, 'm) setter list \<Rightarrow> ref \<Rightarrow> ('t, 'v, 'm) world \<Rightarrow> ref \<times> ('t, 'v, 'm) world" where
  "chain [] this w = (this, w)"
| "chain (c # cs) this w = (case call c this w of (this', w') \<Rightarrow> chain cs this' w')"

text \<open>
  The attribute snapshot of an instance, as the spec lists it for \<^verbatim>\<open>clone()\<close>.
\<close>

definition snapshot ::
    "('t, 'v, 'm) BasicProperties \<Rightarrow>
     string option \<times> bool \<times> bool \<times> bool \<times> bool \<times> (string, string, string) collection \<times>
     (classes_arg, string, unit) collection \<times>
     ((string \<times> string) list, string, string option) collection \<times> string option \<times> 'v \<times> 'm" where
  "snapshot p =
     (tag p, enabled p, readonly p, required p, hidden p, styles p, classes p, attributes p,
      value p, validValues p, mapper p)"

text \<open>An input field, for the worked examples.\<close>

definition example_field :: "(string, string list, string) BasicProperties" where
  "example_field =
     \<lparr>tag = Some ''input'', type = ''string'', enabled = True, readonly = False, derived = False,
      required = True, hidden = False, styles = Assigned ''color: red'',
      classes = Assigned (Classes_array [''wide'']), attributes = Assigned [(''size'', ''10'')],
      value = Some ''x'', validValues = [''x'', ''y''], mapper = ''upper''\<rparr>"

definition example_init :: "(string, string list, string) BasicProperties" where
  "example_init =
     \<lparr>tag = None, type = ''string'', enabled = False, readonly = False, derived = False,
      required = False, hidden = False, styles = Assigned '''',
      classes = Assigned (Classes_array []), attributes = Assigned [],
      value = None, validValues = [], mapper = ''''\<rparr>"

definition example_world :: "(string, string list, string) world" where
  "example_world = \<lparr>alerts = [], heap = [example_field]\<rparr>"


section \<open>The bootstrap facade FormsModule\<close>

text \<open>
  The constructor calls \<^verbatim>\<open>dates.validate()\<close>, \<^verbatim>\<open>KeyMapping.init()\<close> and
  \<^verbatim>\<open>ApplicationHandler.init()\<close>, none of them among the sources: each call is recorded,
  in the order made.
\<close>

datatype init_call = Dates_validate | KeyMapping_init | ApplicationHandler_init

text \<open>
  The members \<^verbatim>\<open>root$\<close> (an \<^verbatim>\<open>HTMLElement\<close>, the type parameter \<open>'e\<close>; not
  initialised) and \<^verbatim>\<open>showurl$\<close> (initially \<^verbatim>\<open>true\<close>) of an instance; the static
  member \<^verbatim>\<open>FormsModule.instance\<close>, the instances created so far (a reference is an
  index, \<^verbatim>\<open>new\<close> appends) and the initialisation calls made so far.
\<close>

record 'e FormsModule =
  root' :: "'e option"
  showurl' :: bool

record 'e process =
  "instance" :: "ref option"
  modules :: "'e FormsModule list"
  init_calls :: "init_call list"

definition process_start :: "'e process" where
  "process_start = \<lparr>instance = None, modules = [], init_calls = []\<rparr>"

definition FormsModule_constructor :: "'e process \<Rightarrow> ref \<times> 'e process" where
  "FormsModule_constructor s =
     (let this = length (modules s) in
      (this, s\<lparr>modules := modules s @ [\<lparr>root' = None, showurl' = True\<rparr>],
               init_calls := init_calls s @ [Dates_validate, KeyMapping_init, ApplicationHandler_init],
               instance := Some this\<rparr>))"

definition FormsModule_get :: "'e process \<Rightarrow> ref \<times> 'e process" where
  "FormsModule_get s =
     (case instance s of
        None \<Rightarrow> (case FormsModule_constructor s of (this, s') \<Rightarrow> (this, s'\<lparr>instance := Some this\<rparr>))
      | Some i \<Rightarrow> (i, s))"

text \<open>
  What a program can do to obtain a \<^verbatim>\<open>FormsModule\<close>: call the static accessor, or
  call the constructor, which is public. A run yields the references obtained, in order.
\<close>

datatype step = Get | New

fun run :: "step list \<Rightarrow> 'e process \<Rightarrow> ref list \<times> 'e process" where
  "run [] s = ([], s)"
| "run (Get # ops) s =
     (case FormsModule_get s of (r, s') \<Rightarrow> (case run ops s' of (rs, s'') \<Rightarrow> (r # rs, s'')))"
| "run (New # ops) s =
     (case FormsModule_constructor s of (r, s') \<Rightarrow> (case run ops s' of (rs, s'') \<Rightarrow> (r # rs, s'')))"

text \<open>
  A class (a constructor function) has an identity and a \<^verbatim>\<open>name\<close>, always a string.
  \<^verbatim>\<open>Components.classmap\<close> and \<^verbatim>\<open>Components.classurl\<close> are the two static maps the
  facade writes and reads; \<^verbatim>\<open>Map.get\<close> of an absent key is \<^verbatim>\<open>undefined\<close>.
\<close>

datatype Class = Class (class_id: nat) (class_name: string)

record Components =
  classmap :: "string \<rightharpoonup> Class"
  classurl :: "string \<rightharpoonup> string"

definition mapComponent :: "Class option \<Rightarrow> string option \<Rightarrow> Components \<Rightarrow> Components" where
  "mapComponent clazz path cs =
     (case clazz of
        None \<Rightarrow> cs
      | Some c \<Rightarrow>
          (let path' = toLowerCase (case path of None \<Rightarrow> class_name c | Some p \<Rightarrow> p)
           in cs\<lparr>classmap := (classmap cs)(path' \<mapsto> c),
                 classurl := (classurl cs)(toLowerCase (class_name c) \<mapsto> path')\<rparr>))"

datatype class_arg = Class_null | Class_ref Class | Class_string string

definition getFormPath :: "class_arg \<Rightarrow> Components \<Rightarrow> string option" where
  "getFormPath clazz cs =
     (case clazz of
        Class_null \<Rightarrow> None
      | Class_ref c \<Rightarrow> classurl cs (toLowerCase (class_name c))
      | Class_string n \<Rightarrow> classurl cs (toLowerCase n))"

definition getComponent :: "string option \<Rightarrow> Components \<Rightarrow> error + Class option" where
  "getComponent path cs =
     (case path of
        None \<Rightarrow> Inl TypeError
      | Some p \<Rightarrow> Inr (classmap cs (toLowerCase p)))"


section \<open>Properties of the relational key\<close>

lemma lower_fields_no_null:
  "\<forall>x \<in> set (drop i fs). x \<noteq> None \<Longrightarrow>
   lower_fields i fs = Inr (take i fs @ map (map_option toLowerCase) (drop i fs))"
proof (induction i fs rule: lower_fields.induct)
  case (1 i fs)
  show ?case
  proof (cases "i < length fs")
    case False
    then show ?thesis
      by (subst lower_fields.simps) simp
  next
    case True
    then have split_at: "drop i fs = fs ! i # drop (Suc i) fs"
      by (simp add: Cons_nth_drop_Suc)
    with "1.prems" obtain f where f: "fs ! i = Some f"
      by auto
    from "1.prems" split_at have rest: "\<forall>x \<in> set (drop (i + 1) (fs[i := Some (toLowerCase f)])). x \<noteq> None"
      by simp
    have "lower_fields i fs = lower_fields (i + 1) (fs[i := Some (toLowerCase f)])"
      using True f by (subst lower_fields.simps) simp
    also have "\<dots> = Inr (take (i + 1) (fs[i := Some (toLowerCase f)]) @
        map (map_option toLowerCase) (drop (i + 1) (fs[i := Some (toLowerCase f)])))"
      using "1.IH" [OF True f rest] .
    also have "take (i + 1) (fs[i := Some (toLowerCase f)]) = take i fs @ [Some (toLowerCase f)]"
      using True by (simp add: take_Suc_conv_app_nth)
    finally show ?thesis
      using split_at f by simp
  qed
qed

lemma lower_fields_all_strings:
  "lower_fields 0 (map Some F) = Inr (map (\<lambda>f. Some (toLowerCase f)) F)"
  using lower_fields_no_null [of 0 "map Some F"] by (simp add: comp_def)

lemma lower_fields_null_entry:
  "i < length fs \<Longrightarrow> fs ! i = None \<Longrightarrow> lower_fields i fs = Inl TypeError"
  by (subst lower_fields.simps) simp

text \<open>
  C1. For every block-name string \<open>B\<close> and every non-empty list \<open>F\<close> of field-identifier
  strings, the constructor succeeds (it throws nothing and raises no alert) and the key has
  \<open>block = lowercase(B)\<close>, \<open>fields\<close> the elements of \<open>F\<close> lower-cased in the same order,
  and \<open>name = null\<close>.
\<close>

theorem Key_constructor_normalizes:
  "F \<noteq> [] \<Longrightarrow>
   Key_constructor (Block_string B) (Fields_array (map Some F)) channel =
     (Inr \<lparr>name' = None, block' = Some (toLowerCase B),
           fields' = Some (map (\<lambda>f. Some (toLowerCase f)) F)\<rparr>, channel)"
  by (simp add: Key_constructor_def lower_fields_all_strings)

theorem Key_constructor_normalizes_witness:
  "[''OrderId'', ''CustomerId''] \<noteq> [] \<and>
   Key_constructor (Block_string ''Orders'') (Fields_array [Some ''OrderId'', Some ''CustomerId'']) [] =
     (Inr \<lparr>name' = None, block' = Some ''orders'',
           fields' = Some [Some ''orderid'', Some ''customerid'']\<rparr>, [])"
  using Key_constructor_normalizes [of "[''OrderId'', ''CustomerId'']" "''Orders''" "[]"]
  by (simp add: toLowerCase_def lower_char_def)

text \<open>
  C2, as the code has it. A null block argument raises the fatal alert
  \<^verbatim>\<open>Invalid key definition, block: 'null'\<close> with the tag \<^verbatim>\<open>Key\<close>, whatever the
  fields argument is; nothing is thrown and the members stay null. The constructor has
  no test for an empty block name.
\<close>

theorem Key_constructor_null_block:
  "Key_constructor Block_null fields_a channel =
     (Inr Key_members_init,
      Alert_fatal (''Invalid key definition, block: 'null'' @ [CHR 0x27]) ''Key'' channel)"
  by (simp add: Key_constructor_def)

text \<open>
  C2 as stated fails: the block name \<^verbatim>\<open>""\<close> is its own lower-case form, and with
  a valid field list the constructor stores it and raises no alert.
\<close>

theorem Key_constructor_empty_block_counterexample:
  "toLowerCase '''' = '''' \<and>
   Key_constructor (Block_string '''') (Fields_array [Some ''id'']) [] =
     (Inr \<lparr>name' = None, block' = Some '''', fields' = Some [Some ''id'']\<rparr>, [])"
  by (simp add: Key_constructor_def lower_fields.simps toLowerCase_def lower_char_def)

text \<open>
  C3, as the code has it. A fields argument that is null or an empty array raises one
  fatal alert with the tag \<^verbatim>\<open>Key\<close> and nothing is thrown: the alert about the block
  when the block is null as well (it is tested first), the alert about the fields
  otherwise. The entries of a non-empty array are not tested.
\<close>

theorem Key_constructor_invalid_fields:
  "Key_constructor block_a Fields_null channel =
     (Inr Key_members_init,
      Alert_fatal
        (if block_a = Block_null then ''Invalid key definition, block: 'null'' @ [CHR 0x27]
         else ''Invalid key definition, fields: 'null'' @ [CHR 0x27]) ''Key'' channel) \<and>
   Key_constructor block_a (Fields_array []) channel =
     (Inr Key_members_init,
      Alert_fatal
        (if block_a = Block_null then ''Invalid key definition, block: 'null'' @ [CHR 0x27]
         else ''Invalid key definition, no fields'') ''Key'' channel)"
  by (simp add: Key_constructor_def)

text \<open>
  C3 as stated fails: a null entry in the array raises no alert, the loop throws a
  \<^verbatim>\<open>TypeError\<close> when it calls \<^verbatim>\<open>toLowerCase\<close> on it.
\<close>

theorem Key_constructor_null_entry_counterexample:
  "Key_constructor (Block_string ''orders'') (Fields_array [None]) [] = (Inl TypeError, [])"
  by (simp add: Key_constructor_def lower_fields_null_entry)

text \<open>
  C4. When the block argument is null, the fields argument is null, or the fields argument
  is an empty list, the constructor raises exactly one fatal alert (the channel grows by
  one entry, tagged \<^verbatim>\<open>Key\<close>), throws nothing, and the object it returns has
  \<open>name\<close>, \<open>block\<close> and \<open>fields\<close> all null.
\<close>

theorem Key_constructor_rejected:
  assumes "block_a = Block_null \<or> fields_a = Fields_null \<or> fields_a = Fields_array []"
  shows "\<exists>k msg. Key_constructor block_a fields_a channel = (Inr k, channel @ [(msg, ''Key'')])
           \<and> name' k = None \<and> block' k = None \<and> fields' k = None"
  using assms by (auto simp: Key_constructor_def Alert_fatal_def Key_members_init_def)

theorem Key_constructor_rejected_witness:
  "(Block_string ''Orders'' = Block_null \<or> Fields_array [] = Fields_null
      \<or> Fields_array [] = Fields_array []) \<and>
   (\<exists>k msg. Key_constructor (Block_string ''Orders'') (Fields_array []) [] = (Inr k, [] @ [(msg, ''Key'')])
      \<and> name' k = None \<and> block' k = None \<and> fields' k = None)"
  using Key_constructor_rejected [of "Block_string ''Orders''" "Fields_array []" "[]"]
  by simp

text \<open>
  C5. For every block argument and every single field-identifier string \<open>f\<close>, the
  constructor called with \<open>f\<close> and the constructor called with the one-element list
  \<open>[f]\<close> end in the same way: the same members, the same alerts, the same exception.
\<close>

theorem Key_constructor_single_field:
  "Key_constructor block_a (Fields_string f) channel =
   Key_constructor block_a (Fields_array [Some f]) channel"
  by (simp add: Key_constructor_def)


section \<open>Properties of the field-property builder\<close>

lemmas setter_defs = setTag_def setType_def setEnabled_def setReadOnly_def setDerived_def
  setRequired_def setHidden_def setStyle_def setStyles_def removeStyle_def setClass_def
  setClasses_def removeClass_def setAttribute_def setAttributes_def removeAttribute_def
  setValue_def setValidValues_def setMapper_def

lemmas base_defs = BasicProperties_setStyle_def BasicProperties_removeStyle_def
  BasicProperties_setClass_def BasicProperties_setClasses_def BasicProperties_removeClass_def
  BasicProperties_setAttribute_def BasicProperties_setAttributes_def
  BasicProperties_removeAttribute_def BasicProperties_setMapper_def

lemma modify_this: "this < length (heap w) \<Longrightarrow> heap (modify this f w) ! this = f (heap w ! this)"
  by (simp add: modify_def)

lemma modify_other: "other \<noteq> this \<Longrightarrow> heap (modify this f w) ! other = heap w ! other"
  by (simp add: modify_def)

text \<open>
  C6. \<^verbatim>\<open>setType\<close> and \<^verbatim>\<open>setDerived\<close>, on any instance and with any argument, raise
  a fatal alert (tag \<^verbatim>\<open>Properties\<close>) and return the instance they were called on; the
  store is the same after the call, so neither the type nor the derived status nor any
  other attribute of the instance (or of any other) has changed.
\<close>

theorem setType_setDerived_poisoned:
  "fst (setType t this w) = this \<and>
   alerts (snd (setType t this w)) = alerts w @ [(''Data type cannot be changed'', ''Properties'')] \<and>
   heap (snd (setType t this w)) = heap w \<and>
   fst (setDerived flag this w) = this \<and>
   alerts (snd (setDerived flag this w)) = alerts w @ [(''Derived cannot be changed'', ''Properties'')] \<and>
   heap (snd (setDerived flag this w)) = heap w"
  by (simp add: setType_def setDerived_def Alert_fatal_def)

text \<open>
  C7. Each of the seventeen other setters, called on an instance, returns that instance,
  and the instance afterwards is the instance before with the one attribute the setter is
  named after replaced: by the argument for the setters that assign, by the collection
  with the entry put or removed for the setters of one style, class or attribute.
\<close>

theorem fluent_setters:
  assumes "this < length (heap w)"
  shows
    "(fst (setTag t this w) = this \<and>
      heap (snd (setTag t this w)) ! this = (heap w ! this)\<lparr>tag := t\<rparr>) \<and>
     (fst (setEnabled f1 this w) = this \<and>
      heap (snd (setEnabled f1 this w)) ! this = (heap w ! this)\<lparr>enabled := f1\<rparr>) \<and>
     (fst (setReadOnly f2 this w) = this \<and>
      heap (snd (setReadOnly f2 this w)) ! this = (heap w ! this)\<lparr>readonly := f2\<rparr>) \<and>
     (fst (setRequired f3 this w) = this \<and>
      heap (snd (setRequired f3 this w)) ! this = (heap w ! this)\<lparr>required := f3\<rparr>) \<and>
     (fst (setHidden f4 this w) = this \<and>
      heap (snd (setHidden f4 this w)) ! this = (heap w ! this)\<lparr>hidden := f4\<rparr>) \<and>
     (fst (setStyles s this w) = this \<and>
      heap (snd (setStyles s this w)) ! this = (heap w ! this)\<lparr>styles := Assigned s\<rparr>) \<and>
     (fst (setValue v this w) = this \<and>
      heap (snd (setValue v this w)) ! this = (heap w ! this)\<lparr>value := v\<rparr>) \<and>
     (fst (setValidValues vs this w) = this \<and>
      heap (snd (setValidValues vs this w)) ! this = (heap w ! this)\<lparr>validValues := vs\<rparr>) \<and>
     (fst (setClasses cs this w) = this \<and>
      heap (snd (setClasses cs this w)) ! this = (heap w ! this)\<lparr>classes := Assigned cs\<rparr>) \<and>
     (fst (setAttributes as this w) = this \<and>
      heap (snd (setAttributes as this w)) ! this = (heap w ! this)\<lparr>attributes := Assigned as\<rparr>) \<and>
     (fst (setMapper m this w) = this \<and>
      heap (snd (setMapper m this w)) ! this = (heap w ! this)\<lparr>mapper := m\<rparr>) \<and>
     (fst (setStyle st sv this w) = this \<and>
      heap (snd (setStyle st sv this w)) ! this =
        (heap w ! this)\<lparr>styles := Put st sv (styles (heap w ! this))\<rparr>) \<and>
     (fst (removeStyle rs this w) = this \<and>
      heap (snd (removeStyle rs this w)) ! this =
        (heap w ! this)\<lparr>styles := Removed rs (styles (heap w ! this))\<rparr>) \<and>
     (fst (setClass c this w) = this \<and>
      heap (snd (setClass c this w)) ! this =
        (heap w ! this)\<lparr>classes := Put c () (classes (heap w ! this))\<rparr>) \<and>
     (fst (removeClass rc this w) = this \<and>
      heap (snd (removeClass rc this w)) ! this =
        (heap w ! this)\<lparr>classes := Removed rc (classes (heap w ! this))\<rparr>) \<and>
     (fst (setAttribute a av this w) = this \<and>
      heap (snd (setAttribute a av this w)) ! this =
        (heap w ! this)\<lparr>attributes := Put a av (attributes (heap w ! this))\<rparr>) \<and>
     (fst (removeAttribute ra this w) = this \<and>
      heap (snd (removeAttribute ra this w)) ! this =
        (heap w ! this)\<lparr>attributes := Removed ra (attributes (heap w ! this))\<rparr>)"
  using assms by (simp add: setter_defs base_defs modify_this)

theorem fluent_setters_witness:
  "0 < length (heap example_world) \<and>
   fst (setEnabled False 0 example_world) = 0 \<and>
   heap (snd (setEnabled False 0 example_world)) ! 0 = example_field\<lparr>enabled := False\<rparr> \<and>
   fst (setValue (Some ''y'') 0 example_world) = 0 \<and>
   heap (snd (setValue (Some ''y'') 0 example_world)) ! 0 = example_field\<lparr>value := Some ''y''\<rparr> \<and>
   fst (setStyle ''width'' ''10px'' 0 example_world) = 0 \<and>
   heap (snd (setStyle ''width'' ''10px'' 0 example_world)) ! 0 =
     example_field\<lparr>styles := Put ''width'' ''10px'' (Assigned ''color: red'')\<rparr>"
  using fluent_setters [where this = 0 and w = example_world and ?f1.0 = False
      and v = "Some ''y''" and st = "''width''" and sv = "''10px''"]
  by (simp add: example_world_def example_field_def)

lemma call_returns_this: "fst (call c this w) = this"
  by (cases c) (simp_all add: setter_defs)

lemma call_other: "other \<noteq> this \<Longrightarrow> heap (snd (call c this w)) ! other = heap w ! other"
  by (cases c) (simp_all add: setter_defs modify_other)

lemma chain_other: "other \<noteq> this \<Longrightarrow> heap (snd (chain cs this w)) ! other = heap w ! other"
proof (induction cs arbitrary: w)
  case Nil
  show ?case by simp
next
  case (Cons c cs)
  obtain r w' where step: "call c this w = (r, w')"
    by (cases "call c this w")
  with call_returns_this [of c this w] have r: "r = this" by simp
  from step call_other [OF Cons.prems, of c w] have "heap w' ! other = heap w ! other" by simp
  with step r Cons.IH [OF Cons.prems, of w'] show ?case by simp
qed

lemma clone_result:
  assumes "p < length (heap w)"
  shows "clone init p w =
    (length (heap w),
     w\<lparr>heap := heap w @
        [init\<lparr>tag := tag (heap w ! p), enabled := enabled (heap w ! p),
           readonly := readonly (heap w ! p), required := required (heap w ! p),
           hidden := hidden (heap w ! p), styles := styles (heap w ! p),
           classes := classes (heap w ! p), attributes := attributes (heap w ! p),
           value := value (heap w ! p), validValues := validValues (heap w ! p),
           mapper := mapper (heap w ! p)\<rparr>]\<rparr>)"
  using assms
  by (simp add: clone_def FieldProperties_constructor_def copyBasic_def modify_def Let_def nth_append)

text \<open>
  C8. For an instance \<open>p\<close>, \<^verbatim>\<open>p.clone()\<close> returns an instance that is not \<open>p\<close> (nor
  any object that existed before), with the attribute snapshot of \<open>p\<close>; \<open>p\<close> itself is as
  it was, and stays so under any chain of setter calls on the clone.
\<close>

theorem clone_independent:
  assumes "p < length (heap w)"
  shows "fst (clone init p w) \<noteq> p \<and> length (heap w) \<le> fst (clone init p w) \<and>
    snapshot (heap (snd (clone init p w)) ! fst (clone init p w)) = snapshot (heap w ! p) \<and>
    heap (snd (clone init p w)) ! p = heap w ! p \<and>
    (\<forall>cs. heap (snd (chain cs (fst (clone init p w)) (snd (clone init p w)))) ! p = heap w ! p)"
proof -
  let ?c = "fst (clone init p w)" and ?w' = "snd (clone init p w)"
  from assms have c: "?c = length (heap w)"
    by (simp add: clone_result)
  with assms have distinct: "p \<noteq> ?c"
    by simp
  from assms have snap: "snapshot (heap ?w' ! ?c) = snapshot (heap w ! p)"
    by (simp add: clone_result snapshot_def)
  from assms have kept: "heap ?w' ! p = heap w ! p"
    by (simp add: clone_result nth_append)
  have "heap (snd (chain cs ?c ?w')) ! p = heap w ! p" for cs
    using chain_other [OF distinct, of cs ?w'] kept by simp
  with c distinct snap kept show ?thesis
    by simp
qed

theorem clone_independent_witness:
  "0 < length (heap example_world) \<and>
   fst (clone example_init 0 example_world) = 1 \<and>
   snapshot (heap (snd (clone example_init 0 example_world)) ! 1) = snapshot example_field \<and>
   heap (snd (chain [SetHidden True, SetTag (Some ''span''), SetStyle ''width'' ''10px'']
     1 (snd (clone example_init 0 example_world)))) ! 0 = example_field"
proof -
  have valid: "0 < length (heap example_world)"
    by (simp add: example_world_def)
  have fresh: "fst (clone example_init 0 example_world) = 1"
    by (simp add: clone_def FieldProperties_constructor_def example_world_def Let_def)
  have orig: "heap example_world ! 0 = example_field"
    by (simp add: example_world_def)
  from clone_independent [OF valid, of example_init] fresh orig valid show ?thesis
    by (simp del: chain.simps)
qed


section \<open>Properties of the bootstrap facade\<close>

lemma FormsModule_get_existing: "instance s = Some i \<Longrightarrow> FormsModule_get s = (i, s)"
  by (simp add: FormsModule_get_def)

lemma FormsModule_get_first:
  "FormsModule_get process_start =
     (0, \<lparr>instance = Some 0, modules = [\<lparr>root' = None, showurl' = True\<rparr>],
          init_calls = [Dates_validate, KeyMapping_init, ApplicationHandler_init]\<rparr>)"
  by (simp add: FormsModule_get_def FormsModule_constructor_def process_start_def)

lemma run_gets_existing:
  "instance s = Some i \<Longrightarrow> New \<notin> set ops \<Longrightarrow> run ops s = (replicate (length ops) i, s)"
proof (induction ops)
  case Nil
  show ?case by simp
next
  case (Cons x ops)
  from Cons.prems have "x = Get"
    by (cases x) simp_all
  with Cons show ?case
    by (simp add: FormsModule_get_existing)
qed

lemma FormsModule_constructor_first:
  "FormsModule_constructor process_start =
     (0, \<lparr>instance = Some 0, modules = [\<lparr>root' = None, showurl' = True\<rparr>],
          init_calls = [Dates_validate, KeyMapping_init, ApplicationHandler_init]\<rparr>)"
  by (simp add: FormsModule_constructor_def process_start_def)

text \<open>
  C9, as the code has it. In a process that obtains the facade at least once and, after
  the first time (by \<^verbatim>\<open>FormsModule.get()\<close> or by \<^verbatim>\<open>new FormsModule()\<close>), through
  \<^verbatim>\<open>FormsModule.get()\<close> only, every call returns the same instance, one instance
  exists, and each of the three initialisations has run exactly once.
\<close>

theorem FormsModule_get_singleton:
  assumes "ops \<noteq> []" and "New \<notin> set (tl ops)"
  shows "run ops process_start =
     (replicate (length ops) 0,
      \<lparr>instance = Some 0, modules = [\<lparr>root' = None, showurl' = True\<rparr>],
       init_calls = [Dates_validate, KeyMapping_init, ApplicationHandler_init]\<rparr>)"
proof (cases ops)
  case Nil
  with assms show ?thesis by simp
next
  case (Cons x rest)
  let ?s = "\<lparr>instance = Some 0, modules = [\<lparr>root' = None, showurl' = True\<rparr>],
       init_calls = [Dates_validate, KeyMapping_init, ApplicationHandler_init]\<rparr> :: 'a process"
  from Cons assms have "New \<notin> set rest"
    by simp
  then have rest: "run rest ?s = (replicate (length rest) 0, ?s)"
    by (simp add: run_gets_existing)
  show ?thesis
  proof (cases x)
    case Get
    with Cons rest show ?thesis
      by (simp add: FormsModule_get_first)
  next
    case New
    with Cons rest show ?thesis
      by (simp add: FormsModule_constructor_first)
  qed
qed

theorem FormsModule_get_singleton_witness:
  "[Get, Get, Get] \<noteq> [] \<and> New \<notin> set (tl [Get, Get, Get]) \<and>
   run [Get, Get, Get] (process_start :: unit process) =
     ([0, 0, 0],
      \<lparr>instance = Some 0, modules = [\<lparr>root' = None, showurl' = True\<rparr>],
       init_calls = [Dates_validate, KeyMapping_init, ApplicationHandler_init]\<rparr>)"
  using FormsModule_get_singleton [of "[Get, Get, Get]"]
  by (simp del: run.simps)

text \<open>
  C9 as stated fails: the constructor is public and registers the object it builds as the
  instance. Between two calls of the accessor, \<^verbatim>\<open>new FormsModule()\<close> runs the three
  initialisations a second time and replaces the instance: the two calls return
  different objects.
\<close>

theorem FormsModule_get_counterexample:
  "fst (run [Get, New, Get] (process_start :: unit process)) = [0, 1, 1] \<and>
   init_calls (snd (run [Get, New, Get] (process_start :: unit process))) =
     [Dates_validate, KeyMapping_init, ApplicationHandler_init,
      Dates_validate, KeyMapping_init, ApplicationHandler_init]"
  by (simp add: FormsModule_get_def FormsModule_constructor_def process_start_def)

text \<open>
  C10. After \<^verbatim>\<open>mapComponent(C, p)\<close>, \<^verbatim>\<open>getComponent(q)\<close> returns \<open>C\<close> for every
  string \<open>q\<close> with the lower-case form of \<open>p\<close>, and \<^verbatim>\<open>getFormPath(C)\<close> returns the
  lower-case form of \<open>p\<close>; without a path the name of the class is the path; with a null
  class nothing is changed.
\<close>

theorem mapComponent_roundtrip:
  "(\<forall>q. toLowerCase q = toLowerCase p \<longrightarrow>
        getComponent (Some q) (mapComponent (Some c) (Some p) cs) = Inr (Some c)) \<and>
   getFormPath (Class_ref c) (mapComponent (Some c) (Some p) cs) = Some (toLowerCase p) \<and>
   mapComponent (Some c) None cs = mapComponent (Some c) (Some (class_name c)) cs \<and>
   mapComponent None path cs = cs"
  by (simp add: mapComponent_def getComponent_def getFormPath_def Let_def)

theorem mapComponent_roundtrip_witness:
  "toLowerCase ''/forms/ORDERS'' = toLowerCase ''/Forms/Orders'' \<and>
   getComponent (Some ''/forms/ORDERS'')
     (mapComponent (Some (Class 7 ''OrderForm'')) (Some ''/Forms/Orders'')
        \<lparr>classmap = Map.empty, classurl = Map.empty\<rparr>) = Inr (Some (Class 7 ''OrderForm'')) \<and>
   getFormPath (Class_ref (Class 7 ''OrderForm''))
     (mapComponent (Some (Class 7 ''OrderForm'')) (Some ''/Forms/Orders'')
        \<lparr>classmap = Map.empty, classurl = Map.empty\<rparr>) = Some ''/forms/orders''"
proof -
  have same: "toLowerCase ''/forms/ORDERS'' = toLowerCase ''/Forms/Orders''"
    by (simp add: toLowerCase_def lower_char_def)
  have lower: "toLowerCase ''/Forms/Orders'' = ''/forms/orders''"
    by (simp add: toLowerCase_def lower_char_def)
  from mapComponent_roundtrip [of "''/Forms/Orders''" "Class 7 ''OrderForm''"
      "\<lparr>classmap = Map.empty, classurl = Map.empty\<rparr>"] same lower
  show ?thesis
    by simp
qed

end
